theory Spec2Isabelle
  imports Main
begin

section \<open>JavaScript values\<close>

subsection \<open>Strings\<close>

text \<open>
  A JavaScript string is a sequence of UTF-16 code units; \<open>length\<close>, \<open>trim\<close>,
  \<open>includes\<close> and the regular expressions of the program all work on code units.
  A code unit is modelled as a natural number, and \<open>js\<close> turns an ASCII literal of the
  source into its code units.
\<close>

type_synonym jsstring = "nat list"

definition js :: "string \<Rightarrow> jsstring" where
  "js s = map of_char s"

text \<open>
  White space and line terminators of ECMAScript: the characters that \<open>\s\<close> matches
  and that \<open>trim\<close> and \<open>parseFloat\<close> strip (TAB, LF, VT, FF, CR, SP, NBSP, U+1680,
  U+2000..U+200A, U+2028, U+2029, U+202F, U+205F, U+3000, U+FEFF).
\<close>

definition isWhiteSpace :: "nat \<Rightarrow> bool" where
  "isWhiteSpace c \<longleftrightarrow>
     c \<in> {9, 10, 11, 12, 13, 32, 160, 5760, 8232, 8233, 8239, 8287, 12288, 65279}
     \<or> (8192 \<le> c \<and> c \<le> 8202)"

definition isDigit :: "nat \<Rightarrow> bool" where
  "isDigit c \<longleftrightarrow> 48 \<le> c \<and> c \<le> 57"

text \<open>\<open>s.trim()\<close>\<close>

definition trim :: "jsstring \<Rightarrow> jsstring" where
  "trim s = rev (dropWhile isWhiteSpace (rev (dropWhile isWhiteSpace s)))"

text \<open>\<open>s.replace(/\s+/g, " ")\<close>: every maximal run of white space becomes one space.\<close>

function collapse_ws :: "jsstring \<Rightarrow> jsstring" where
  "collapse_ws [] = []"
| "collapse_ws (c # cs) =
     (if isWhiteSpace c then 32 # collapse_ws (dropWhile isWhiteSpace cs)
      else c # collapse_ws cs)"
  by pat_completeness auto
termination
  by (relation "measure length") (auto simp: less_Suc_eq_le length_dropWhile_le)

text \<open>\<open>s.startsWith(p)\<close> and \<open>s.includes(n)\<close>\<close>

fun startsWith :: "jsstring \<Rightarrow> jsstring \<Rightarrow> bool" where
  "startsWith s [] = True"
| "startsWith [] (p # ps) = False"
| "startsWith (c # cs) (p # ps) = (c = p \<and> startsWith cs ps)"

fun includes_str :: "jsstring \<Rightarrow> jsstring \<Rightarrow> bool" where
  "includes_str [] n = (n = [])"
| "includes_str (c # cs) n = (startsWith (c # cs) n \<or> includes_str cs n)"

text \<open>\<open>xs.join(sep)\<close> on strings\<close>

fun join :: "jsstring \<Rightarrow> jsstring list \<Rightarrow> jsstring" where
  "join sep [] = []"
| "join sep [x] = x"
| "join sep (x # y # ys) = x @ sep @ join sep (y # ys)"

text \<open>\<open>s.replace(".", "\\.")\<close>: a string pattern replaces the first occurrence only.\<close>

fun replace_dot :: "jsstring \<Rightarrow> jsstring" where
  "replace_dot [] = []"
| "replace_dot (c # cs) = (if c = 46 then 92 # 46 # cs else c # replace_dot cs)"

subsection \<open>Numbers\<close>

text \<open>
  A JavaScript number is a double. A finite double is identified with its shortest
  decimal that reads back as the same double, which is what \<open>Number::toString\<close> prints:
  \<open>Finite neg ds n\<close> is the double whose shortest decimal has the digits \<open>ds\<close> (most
  significant first, no leading or trailing zero, \<open>[]\<close> for zero) and the value
  \<open>0.ds * 10^n\<close>, negated when \<open>neg\<close>.
\<close>

datatype jsnum = NaN | Infinity bool | Finite bool "nat list" int

fun dec_digits :: "nat \<Rightarrow> jsstring" where
  "dec_digits n = (if n < 10 then [48 + n] else dec_digits (n div 10) @ [48 + n mod 10])"

declare dec_digits.simps [simp del]

definition digitChars :: "nat list \<Rightarrow> jsstring" where
  "digitChars ds = map (\<lambda>d. 48 + d) ds"

text \<open>
  \<open>Number::toString\<close> of ECMAScript for a positive finite number with \<open>k\<close> digits
  \<open>ds\<close> and decimal point position \<open>n\<close>: plain digits with zeros appended, digits with a
  decimal point inside, \<open>0.\<close> with zeros prepended, or exponent notation.
\<close>

definition finite_toString :: "nat list \<Rightarrow> int \<Rightarrow> jsstring" where
  "finite_toString ds n =
     (let k = int (length ds) in
      if k \<le> n \<and> n \<le> 21 then digitChars ds @ replicate (nat (n - k)) 48
      else if 0 < n \<and> n \<le> 21 then
        digitChars (take (nat n) ds) @ [46] @ digitChars (drop (nat n) ds)
      else if - 6 < n \<and> n \<le> 0 then
        [48, 46] @ replicate (nat (- n)) 48 @ digitChars ds
      else
        (if k = 1 then digitChars ds
         else digitChars (take 1 ds) @ [46] @ digitChars (drop 1 ds))
        @ [101] @ [if n - 1 < 0 then 45 else 43] @ dec_digits (nat \<bar>n - 1\<bar>))"

text \<open>\<open>String(x)\<close> for a number \<open>x\<close>\<close>

fun Number_toString :: "jsnum \<Rightarrow> jsstring" where
  "Number_toString NaN = js ''NaN''"
| "Number_toString (Infinity neg) = (if neg then js ''-Infinity'' else js ''Infinity'')"
| "Number_toString (Finite neg ds n) =
     (if ds = [] then js ''0''
      else (if neg then [45] else []) @ finite_toString ds n)"

text \<open>\<open>Number.isNaN(x)\<close>\<close>

fun Number_isNaN :: "jsnum \<Rightarrow> bool" where
  "Number_isNaN NaN = True"
| "Number_isNaN (Infinity neg) = False"
| "Number_isNaN (Finite neg ds n) = False"

subsection \<open>Values of any type\<close>

text \<open>
  The body of a vendor response as axios delivers it: a parsed JSON value or the raw
  text. An object is the list of its properties, each key once. \<open>Undefined\<close> is what
  reading an absent property gives.
\<close>

datatype jsval =
    Undefined
  | Null
  | Bool bool
  | Num jsnum
  | Str jsstring
  | Arr "jsval list"
  | Obj "(string \<times> jsval) list"

text \<open>Truthiness, as \<open>if (v)\<close>, \<open>v && ...\<close> and \<open>v ? ... : ...\<close> test it.\<close>

fun truthy :: "jsval \<Rightarrow> bool" where
  "truthy Undefined = False"
| "truthy Null = False"
| "truthy (Bool b) = b"
| "truthy (Num NaN) = False"
| "truthy (Num (Infinity neg)) = True"
| "truthy (Num (Finite neg ds n)) = (ds \<noteq> [])"
| "truthy (Str s) = (s \<noteq> [])"
| "truthy (Arr vs) = True"
| "truthy (Obj kvs) = True"

text \<open>
  \<open>v.key\<close> for the keys the program reads (\<open>ParsedResults\<close>, \<open>ParsedText\<close>,
  \<open>OCRExitCode\<close>): a property of an object, \<open>undefined\<close> on every other value that
  can be read from (strings, numbers, booleans and arrays have no such property).
\<close>

fun getProp :: "jsval \<Rightarrow> string \<Rightarrow> jsval" where
  "getProp (Obj kvs) key = (case map_of kvs key of None \<Rightarrow> Undefined | Some v \<Rightarrow> v)"
| "getProp v key = Undefined"

text \<open>
  \<open>String(v)\<close>, and the conversion \<open>Array.prototype.join\<close> applies to an element
  (\<open>undefined\<close> and \<open>null\<close> give the empty string there). The conversion of an
  object can throw, and \<open>None\<close> is the \<open>TypeError\<close> thrown. To convert an object,
  \<open>OrdinaryToPrimitive\<close> calls its \<open>toString\<close> and, when that is not callable, its
  \<open>valueOf\<close>. An object read from JSON inherits both from \<open>Object.prototype\<close>, where
  \<open>toString\<close> returns \<open>[object Object]\<close>, unless it has a key of that name; the value
  of a key is never callable, and the inherited \<open>valueOf\<close> returns the object itself,
  which is not a primitive: an object with a key \<open>toString\<close> cannot be converted.
  An array is converted by joining its elements with commas, and throws when the
  conversion of an element does.
\<close>

fun toString :: "jsval \<Rightarrow> jsstring option"
  and joinElement :: "jsval \<Rightarrow> jsstring option" where
  "toString Undefined = Some (js ''undefined'')"
| "toString Null = Some (js ''null'')"
| "toString (Bool b) = Some (if b then js ''true'' else js ''false'')"
| "toString (Num x) = Some (Number_toString x)"
| "toString (Str s) = Some s"
| "toString (Arr vs) = map_option (join [44]) (those (map joinElement vs))"
| "toString (Obj kvs) =
     (if map_of kvs ''toString'' = None then Some (js ''[object Object]'') else None)"
| "joinElement v = (case v of Undefined \<Rightarrow> Some [] | Null \<Rightarrow> Some [] | _ \<Rightarrow> toString v)"

subsection \<open>What the engine and its libraries supply\<close>

text \<open>
  The Unicode tables behind \<open>String.prototype.normalize("NFKD")\<close> and
  \<open>toLowerCase\<close>, the rounding of a decimal to the nearest double and
  \<open>JSON.stringify\<close> belong to the JavaScript engine, not to the repository. They are
  parameters of the model, and a statement with the engine \<open>E\<close> free holds for every
  engine.
\<close>

record engine =
  normalizeNFKD :: "jsstring \<Rightarrow> jsstring"
  toLowerCase :: "jsstring \<Rightarrow> jsstring"
  roundToDouble :: "jsnum \<Rightarrow> jsnum"
  JSON_stringify :: "jsval \<Rightarrow> jsstring"

text \<open>
  \<open>s.normalize("NFKD")\<close> and \<open>s.toLowerCase()\<close>. No ASCII character has a
  decomposition, and the lower case of ASCII text maps \<open>A\<close>..\<open>Z\<close> to \<open>a\<close>..\<open>z\<close>, in
  every engine: the model computes these on ASCII text and asks the engine's tables
  for any other text.
\<close>

definition isASCII :: "jsstring \<Rightarrow> bool" where
  "isASCII s \<longleftrightarrow> list_all (\<lambda>c. c < 128) s"

definition asciiLower :: "nat \<Rightarrow> nat" where
  "asciiLower c = (if 65 \<le> c \<and> c \<le> 90 then c + 32 else c)"

definition String_normalizeNFKD :: "engine \<Rightarrow> jsstring \<Rightarrow> jsstring" where
  "String_normalizeNFKD E s = (if isASCII s then s else normalizeNFKD E s)"

definition String_toLowerCase :: "engine \<Rightarrow> jsstring \<Rightarrow> jsstring" where
  "String_toLowerCase E s = (if isASCII s then map asciiLower s else toLowerCase E s)"

text \<open>
  The double nearest to the decimal \<open>0.ds * 10^n\<close>. A decimal of at most 15 significant
  digits well inside the normal range is itself the shortest decimal of its double, so
  the model computes these exactly; beyond that the engine's rounding decides.
\<close>

definition toDouble :: "engine \<Rightarrow> bool \<Rightarrow> nat list \<Rightarrow> int \<Rightarrow> jsnum" where
  "toDouble E neg ds n =
     (if ds = [] then Finite neg [] 0
      else if length ds \<le> 15 \<and> - 300 \<le> n \<and> n \<le> 300 then Finite neg ds n
      else roundToDouble E (Finite neg ds n))"

definition digitsOf :: "jsstring \<Rightarrow> nat list" where
  "digitsOf cs = map (\<lambda>c. c - 48) cs"

definition digitsValue :: "nat list \<Rightarrow> nat" where
  "digitsValue ds = foldl (\<lambda>a d. 10 * a + d) 0 ds"

text \<open>
  The exponent part of a decimal literal, \<open>e\<close> or \<open>E\<close>, an optional sign and at least one
  digit; 0 when the text does not start with one.
\<close>

definition exponentPart :: "jsstring \<Rightarrow> int" where
  "exponentPart s =
     (case s of
        [] \<Rightarrow> 0
      | c # r \<Rightarrow>
          if c = 101 \<or> c = 69 then
            (let neg = (case r of [] \<Rightarrow> False | d # r2 \<Rightarrow> d = 45);
                 r' = (case r of [] \<Rightarrow> r | d # r2 \<Rightarrow> if d = 45 \<or> d = 43 then r2 else r);
                 ds = takeWhile isDigit r'
             in if ds = [] then 0
                else if neg then - int (digitsValue (digitsOf ds))
                else int (digitsValue (digitsOf ds)))
          else 0)"

text \<open>
  \<open>parseFloat(inputString)\<close>: skip leading white space, read the longest prefix that is
  a decimal literal (sign, \<open>Infinity\<close> or digits with an optional fraction, then an
  optional exponent), \<open>NaN\<close> when there is none.
\<close>

definition parseFloat :: "engine \<Rightarrow> jsstring \<Rightarrow> jsnum" where
  "parseFloat E inputString =
     (let trimmed = dropWhile isWhiteSpace inputString;
          neg = (case trimmed of [] \<Rightarrow> False | c # r \<Rightarrow> c = 45);
          u = (case trimmed of [] \<Rightarrow> [] | c # r \<Rightarrow> if c = 45 \<or> c = 43 then r else trimmed)
      in if startsWith u (js ''Infinity'') then Infinity neg
         else
           (let ip = takeWhile isDigit u;
                r1 = dropWhile isDigit u;
                hasDot = (case r1 of [] \<Rightarrow> False | c # r \<Rightarrow> c = 46);
                fp = (if hasDot then takeWhile isDigit (drop 1 r1) else []);
                r2 = (if hasDot then dropWhile isDigit (drop 1 r1) else r1)
            in if ip = [] \<and> fp = [] then NaN
               else
                 (let lead = dropWhile (\<lambda>d. d = 0) (digitsOf (ip @ fp));
                      sig = rev (dropWhile (\<lambda>d. d = 0) (rev lead));
                      n = int (length lead) + exponentPart r2 - int (length fp)
                  in toDouble E neg sig n)))"

subsection \<open>The regular expressions the program builds\<close>

text \<open>
  The pattern of the alcohol matcher is a sequence of these items: the assertion \<open>\b\<close>,
  one character, a character repeated (\<open>*\<close> and \<open>+\<close>), an optional literal group and an
  alternative of literals. A literal is compared as the flag \<open>i\<close> compares it.
\<close>

datatype catom = Lit nat | AnyChar | WhiteSpaceClass

datatype rx = WordBoundary | One catom | Star catom | Plus catom
  | OptLit jsstring | AltLit "jsstring list"

text \<open>
  Canonicalize of the flag \<open>i\<close> (without \<open>u\<close>): a character is compared by its upper
  case, and a character from 128 on never canonicalizes to an ASCII character. Every
  literal of the pattern is ASCII, so the ASCII fold decides each comparison.
\<close>

definition canonicalize :: "nat \<Rightarrow> nat" where
  "canonicalize c = (if 97 \<le> c \<and> c \<le> 122 then c - 32 else c)"

fun atom_ok :: "catom \<Rightarrow> nat \<Rightarrow> bool" where
  "atom_ok (Lit p) c = (canonicalize c = canonicalize p)"
| "atom_ok AnyChar c = (c \<notin> {10, 13, 8232, 8233})"
| "atom_ok WhiteSpaceClass c = isWhiteSpace c"

text \<open>
  A matcher state is the character before the current position (none at the start of
  the text) and the rest of the text. An item maps a state to every state it can end in.
\<close>

type_synonym rstate = "nat option \<times> jsstring"

fun isWordChar :: "nat option \<Rightarrow> bool" where
  "isWordChar None = False"
| "isWordChar (Some c) =
     ((48 \<le> c \<and> c \<le> 57) \<or> (65 \<le> c \<and> c \<le> 90) \<or> (97 \<le> c \<and> c \<le> 122) \<or> c = 95)"

fun nextChar :: "jsstring \<Rightarrow> nat option" where
  "nextChar [] = None"
| "nextChar (c # cs) = Some c"

fun eat :: "catom \<Rightarrow> rstate \<Rightarrow> rstate list" where
  "eat a (p, []) = []"
| "eat a (p, c # cs) = (if atom_ok a c then [(Some c, cs)] else [])"

fun eat_star :: "catom \<Rightarrow> nat option \<Rightarrow> jsstring \<Rightarrow> rstate list" where
  "eat_star a p [] = [(p, [])]"
| "eat_star a p (c # cs) = (p, c # cs) # (if atom_ok a c then eat_star a (Some c) cs else [])"

fun eat_lit :: "jsstring \<Rightarrow> nat option \<Rightarrow> jsstring \<Rightarrow> rstate list" where
  "eat_lit [] p s = [(p, s)]"
| "eat_lit (l # ls) p [] = []"
| "eat_lit (l # ls) p (c # cs) = (if atom_ok (Lit l) c then eat_lit ls (Some c) cs else [])"

fun rx_step :: "rx \<Rightarrow> rstate \<Rightarrow> rstate list" where
  "rx_step WordBoundary (p, s) = (if isWordChar p \<noteq> isWordChar (nextChar s) then [(p, s)] else [])"
| "rx_step (One a) (p, s) = eat a (p, s)"
| "rx_step (Star a) (p, s) = eat_star a p s"
| "rx_step (Plus a) (p, s) = concat (map (\<lambda>(q, t). eat_star a q t) (eat a (p, s)))"
| "rx_step (OptLit l) (p, s) = eat_lit l p s @ [(p, s)]"
| "rx_step (AltLit ls) (p, s) = concat (map (\<lambda>l. eat_lit l p s) ls)"

fun rx_run :: "rx list \<Rightarrow> rstate list \<Rightarrow> rstate list" where
  "rx_run [] sts = sts"
| "rx_run (r # rs) sts = rx_run rs (concat (map (rx_step r) sts))"

text \<open>\<open>re.test(text)\<close>: the pattern matches at some position of the text.\<close>

fun rx_test_from :: "rx list \<Rightarrow> nat option \<Rightarrow> jsstring \<Rightarrow> bool" where
  "rx_test_from pat p [] = (rx_run pat [(p, [])] \<noteq> [])"
| "rx_test_from pat p (c # cs) =
     (rx_run pat [(p, c # cs)] \<noteq> [] \<or> rx_test_from pat (Some c) cs)"

definition RegExp_test :: "rx list \<Rightarrow> jsstring \<Rightarrow> bool" where
  "RegExp_test pat text = rx_test_from pat None text"

text \<open>
  The token \<open>String(numeric).replace(".", "\\.")\<close> read as pattern source. The printed
  number consists of digits, \<open>-\<close>, \<open>.\<close>, \<open>e\<close>, \<open>+\<close> and the letters of \<open>Infinity\<close>; in a
  pattern \<open>\.\<close> is a literal dot, an unescaped \<open>.\<close> is any character, \<open>+\<close> repeats the item
  before it (as in \<open>1e+21\<close>) and every other character is itself. A \<open>+\<close> with nothing to
  repeat does not occur in a printed number.
\<close>

datatype rtok = Atom catom | PlusSign

fun rx_lex :: "jsstring \<Rightarrow> rtok list" where
  "rx_lex [] = []"
| "rx_lex [c] = [if c = 43 then PlusSign else if c = 46 then Atom AnyChar else Atom (Lit c)]"
| "rx_lex (c # d # cs) =
     (if c = 92 then Atom (Lit d) # rx_lex cs
      else (if c = 43 then PlusSign else if c = 46 then Atom AnyChar else Atom (Lit c))
           # rx_lex (d # cs))"

fun rx_items :: "rtok list \<Rightarrow> rx list" where
  "rx_items [] = []"
| "rx_items (Atom a # PlusSign # ts) = Plus a # rx_items ts"
| "rx_items (Atom a # ts) = One a # rx_items ts"
| "rx_items (PlusSign # ts) = rx_items ts"

text \<open>
  \<open>new RegExp("\\b" + token + "(?:\\.0)?\\s*(?:%|percent|abv)", "i")\<close>
\<close>

definition alcohol_RegExp :: "jsstring \<Rightarrow> rx list" where
  "alcohol_RegExp token =
     [WordBoundary] @ rx_items (rx_lex token)
     @ [OptLit (js ''.0''), Star WhiteSpaceClass, AltLit [js ''%'', js ''percent'', js ''abv'']]"

section \<open>Label verifier\<close>

text \<open>
  \<open>normalize(s)\<close>:
  \<open>(s || "").toString().normalize("NFKD").replace(/\s+/g, " ").trim().toLowerCase()\<close>.
  On a string, \<open>(s || "").toString()\<close> is the string itself.
\<close>

definition normalize_str :: "engine \<Rightarrow> jsstring \<Rightarrow> jsstring" where
  "normalize_str E s = String_toLowerCase E (trim (collapse_ws (String_normalizeNFKD E s)))"

text \<open>
  The submitted form fields: \<open>None\<close> is \<open>null\<close> (the field was not sent), \<open>Some s\<close> the
  text of the field. A field is skipped when it is falsy: \<open>null\<close> or the empty string.
\<close>

record submitted_fields =
  brandName :: "jsstring option"
  productClass :: "jsstring option"
  alcoholContent :: "jsstring option"

definition absent :: "jsstring option \<Rightarrow> bool" where
  "absent v \<longleftrightarrow> v = None \<or> v = Some []"

record label_checks =
  found :: "string list"
  missing :: "string list"

text \<open>The matcher of the \<open>alcoholContent\<close> branch of \<open>verifyLabels\<close>.\<close>

definition alcoholFound :: "engine \<Rightarrow> jsstring \<Rightarrow> jsstring \<Rightarrow> bool" where
  "alcoholFound E parsedText v =
     (let raw = trim v;
          numeric = parseFloat E raw
      in if \<not> Number_isNaN numeric then
           (let token = replace_dot (Number_toString numeric);
                re = alcohol_RegExp token
            in RegExp_test re parsedText)
         else False)"

definition verifyLabels :: "engine \<Rightarrow> jsstring \<Rightarrow> submitted_fields \<Rightarrow> label_checks" where
  "verifyLabels E parsedText fs =
     (let labelChecks = \<lparr>found = [], missing = []\<rparr>;
          normalizedParsed = normalize_str E parsedText;
          labelChecks =
            (case brandName fs of
               None \<Rightarrow> labelChecks
             | Some v \<Rightarrow>
                 if v = [] then labelChecks
                 else
                   (let n = normalize_str E v in
                    if n \<noteq> [] \<and> includes_str normalizedParsed n
                    then labelChecks\<lparr>found := found labelChecks @ [''brandName'']\<rparr>
                    else labelChecks\<lparr>missing := missing labelChecks @ [''brandName'']\<rparr>));
          labelChecks =
            (case productClass fs of
               None \<Rightarrow> labelChecks
             | Some v \<Rightarrow>
                 if v = [] then labelChecks
                 else
                   (let n = normalize_str E v in
                    if n \<noteq> [] \<and> includes_str normalizedParsed n
                    then labelChecks\<lparr>found := found labelChecks @ [''productClass'']\<rparr>
                    else labelChecks\<lparr>missing := missing labelChecks @ [''productClass'']\<rparr>));
          labelChecks =
            (case alcoholContent fs of
               None \<Rightarrow> labelChecks
             | Some v \<Rightarrow>
                 if v = [] then labelChecks
                 else if alcoholFound E parsedText v
                 then labelChecks\<lparr>found := found labelChecks @ [''alcoholContent'']\<rparr>
                 else labelChecks\<lparr>missing := missing labelChecks @ [''alcoholContent'']\<rparr>)
      in labelChecks)"

text \<open>
  \<open>isVerificationComplete(labelChecks)\<close>:
  \<open>labelChecks.missing.length === 0 && labelChecks.found.length > 0\<close>
\<close>

definition isVerificationComplete :: "label_checks \<Rightarrow> bool" where
  "isVerificationComplete labelChecks \<longleftrightarrow>
     length (missing labelChecks) = 0 \<and> length (found labelChecks) > 0"

text \<open>
  \<open>extractParsedText(apiData, jsonString)\<close>. A property is read only from a truthy
  value, so the one operation of the \<open>try\<close> block that can throw is the \<open>join\<close> of
  the page texts, when a page text cannot be converted to a string; the \<open>catch\<close>
  branch then falls through to \<open>return jsonString\<close>.
\<close>

fun isArray :: "jsval \<Rightarrow> bool" where
  "isArray (Arr vs) = True"
| "isArray v = False"

fun elements :: "jsval \<Rightarrow> jsval list" where
  "elements (Arr vs) = vs"
| "elements v = []"

fun isString :: "jsval \<Rightarrow> bool" where
  "isString (Str s) = True"
| "isString v = False"

fun stringValue :: "jsval \<Rightarrow> jsstring" where
  "stringValue (Str s) = s"
| "stringValue v = []"

definition extractParsedText :: "jsval \<Rightarrow> jsstring \<Rightarrow> jsstring" where
  "extractParsedText apiData jsonString =
     (if truthy apiData then
        if isArray (getProp apiData ''ParsedResults'')
           \<and> length (elements (getProp apiData ''ParsedResults'')) > 0
        then (case those
                     (map (\<lambda>p. joinElement
                                 (if truthy p \<and> truthy (getProp p ''ParsedText'')
                                  then getProp p ''ParsedText'' else Str []))
                          (elements (getProp apiData ''ParsedResults''))) of
                Some texts \<Rightarrow> join [10] texts
              | None \<Rightarrow> jsonString)
        else if isString (getProp apiData ''ParsedText'')
        then stringValue (getProp apiData ''ParsedText'')
        else if isString apiData then stringValue apiData
        else jsonString
      else jsonString)"

section \<open>OCR service\<close>

record axios_response =
  status :: nat
  data :: jsval

record axios_error =
  code :: "string option"
  response :: "axios_response option"
  message :: jsstring

text \<open>
  What one \<open>axios.post\<close> meets on the wire: the vendor answers with a status and a
  body, the request times out, or it fails in another way, which axios reports with an
  error of its own making (a code, a response when one came with it, a message).
\<close>

datatype wire = Answered nat jsval | TimedOut | Failed axios_error

datatype outcome = Resolved axios_response | Rejected axios_error

text \<open>
  axios settles a request as its documentation of the option \<open>validateStatus\<close> says:
  an answer resolves the promise when \<open>validateStatus\<close> is \<open>null\<close> or accepts the
  status, and rejects it otherwise, with the response attached to the error. A timeout
  rejects with the code \<open>ECONNABORTED\<close> and no response, and any other failure
  rejects with its error.
\<close>

definition axios_post :: "(nat \<Rightarrow> bool) option \<Rightarrow> wire \<Rightarrow> outcome" where
  "axios_post validateStatus w =
     (case w of
        Answered st body \<Rightarrow>
          (case validateStatus of
             None \<Rightarrow> Resolved \<lparr>status = st, data = body\<rparr>
           | Some ok \<Rightarrow>
               if ok st then Resolved \<lparr>status = st, data = body\<rparr>
               else Rejected \<lparr>code = Some (if st < 500 then ''ERR_BAD_REQUEST''
                                              else ''ERR_BAD_RESPONSE''),
                               response = Some \<lparr>status = st, data = body\<rparr>,
                               message = js ''Request failed with status code '' @ dec_digits st\<rparr>)
      | TimedOut \<Rightarrow>
          Rejected \<lparr>code = Some ''ECONNABORTED'', response = None,
                     message = js ''timeout of 60000ms exceeded''\<rparr>
      | Failed err \<Rightarrow> Rejected err)"

text \<open>
  The vendor and the network: what the wire does at each attempt, given the posted
  file, its name and its content type.
\<close>

type_synonym vendor = "nat list \<Rightarrow> jsstring \<Rightarrow> jsstring \<Rightarrow> nat \<Rightarrow> wire"

text \<open>The effects of a call, in order: a request posted at an attempt, a sleep in ms.\<close>

datatype event = Post nat | Sleep nat

record api_result =
  success :: bool
  response :: "axios_response option"
  error :: "axios_error option"
  attempts :: nat

definition MAX_RETRIES :: nat where
  "MAX_RETRIES = 3"

definition INITIAL_BACKOFF_MS :: nat where
  "INITIAL_BACKOFF_MS = 1000"

text \<open>
  \<open>err.code === "ECONNABORTED"\<close> and \<open>err.response && err.response.status >= 500\<close>
\<close>

definition isTimeout :: "axios_error \<Rightarrow> bool" where
  "isTimeout err \<longleftrightarrow> code err = Some ''ECONNABORTED''"

definition isServerErr :: "axios_error \<Rightarrow> bool" where
  "isServerErr err \<longleftrightarrow>
     (case axios_error.response err of None \<Rightarrow> False | Some r \<Rightarrow> status r \<ge> 500)"

text \<open>
  The loop of \<open>postToExternalApi\<close>, with the variables \<open>attempt\<close> and \<open>lastErr\<close> and the
  effects so far; \<open>post k\<close> is how the \<open>axios.post\<close> of attempt \<open>k\<close> settles.
\<close>

function post_loop ::
  "(nat \<Rightarrow> outcome) \<Rightarrow> nat \<Rightarrow> axios_error option \<Rightarrow> event list \<Rightarrow> api_result \<times> event list" where
  "post_loop post attempt lastErr log =
     (if attempt < MAX_RETRIES then
        (case post (attempt + 1) of
           Resolved resp \<Rightarrow>
             (\<lparr>success = True, response = Some resp, error = None, attempts = attempt + 1\<rparr>,
              log @ [Post (attempt + 1)])
         | Rejected err \<Rightarrow>
             if isTimeout err \<or> isServerErr err then
               post_loop post (attempt + 1) (Some err)
                 (log @ [Post (attempt + 1),
                         Sleep (INITIAL_BACKOFF_MS * 2 ^ (attempt + 1 - 1))])
             else
               (\<lparr>success = False, response = None, error = Some err, attempts = attempt + 1\<rparr>,
                log @ [Post (attempt + 1)]))
      else (\<lparr>success = False, response = None, error = lastErr, attempts = attempt\<rparr>, log))"
  by pat_completeness auto
termination
  by (relation "measure (\<lambda>(post, attempt, lastErr, log). MAX_RETRIES - attempt)") auto

declare post_loop.simps [simp del]

text \<open>
  \<open>postToExternalApi(fileBuffer, filename, mimetype)\<close>: every attempt posts the same form
  with \<open>validateStatus: null\<close>.
\<close>

definition postToExternalApi ::
  "vendor \<Rightarrow> nat list \<Rightarrow> jsstring \<Rightarrow> jsstring \<Rightarrow> api_result \<times> event list" where
  "postToExternalApi V fileBuffer filename mimetype =
     post_loop (\<lambda>attempt. axios_post None (V fileBuffer filename mimetype attempt)) 0 None []"

section \<open>Upload processor and route\<close>

record upload_file =
  buffer :: "nat list"
  originalname :: jsstring
  mimetype :: jsstring

record request =
  req_file :: "upload_file option"
  req_body :: submitted_fields

text \<open>
  The JSON body of a reply; a key that a reply does not carry is \<open>None\<close>.
\<close>

record reply_body =
  b_success :: bool
  b_reason :: jsstring
  b_attempts :: "nat option"
  b_apiStatus :: "nat option"
  b_apiErrorCode :: "jsval option"
  b_apiBody :: "jsval option"
  b_submittedFields :: "submitted_fields option"
  b_labelChecks :: "label_checks option"

record reply =
  statusCode :: nat
  json :: reply_body

definition extractRequestData :: "request \<Rightarrow> submitted_fields" where
  "extractRequestData req =
     \<lparr>brandName = brandName (req_body req),
      productClass = productClass (req_body req),
      alcoholContent = alcoholContent (req_body req)\<rparr>"

definition stringifyApiData :: "engine \<Rightarrow> jsval \<Rightarrow> jsstring" where
  "stringifyApiData E apiData =
     (if isString apiData then stringValue apiData else JSON_stringify E apiData)"

text \<open>\<open>typeof v === "object"\<close>\<close>

fun isObject :: "jsval \<Rightarrow> bool" where
  "isObject Null = True"
| "isObject (Arr vs) = True"
| "isObject (Obj kvs) = True"
| "isObject v = False"

text \<open>
  \<open>resp.data && typeof resp.data === "object" ? resp.data.OCRExitCode : null\<close>, and
  the test \<open>exitCode && exitCode !== 1 && exitCode !== 2\<close> on it.
\<close>

definition ocrExitCode :: "jsval \<Rightarrow> jsval" where
  "ocrExitCode d = (if truthy d \<and> isObject d then getProp d ''OCRExitCode'' else Null)"

definition isErrorExitCode :: "jsval \<Rightarrow> bool" where
  "isErrorExitCode exitCode \<longleftrightarrow>
     truthy exitCode \<and> exitCode \<noteq> Num (Finite False [1] 1)
     \<and> exitCode \<noteq> Num (Finite False [2] 1)"

text \<open>
  \<open>processOcrResponse(req, res)\<close> for a request with the file \<open>f\<close>: the reply sent
  through \<open>res\<close> and the effects of the vendor call.
\<close>

definition processOcrResponse ::
  "engine \<Rightarrow> vendor \<Rightarrow> request \<Rightarrow> upload_file \<Rightarrow> reply \<times> event list" where
  "processOcrResponse E V req f =
     (let requestData = extractRequestData req;
          (result, log) = postToExternalApi V (buffer f) (originalname f) (mimetype f)
      in if \<not> success result then
           (let timedOut = (case error result of None \<Rightarrow> False | Some e \<Rightarrow> isTimeout e);
                msg = (if timedOut then js ''External API timed out''
                       else js ''Failed to call external API: ''
                            @ (case error result of None \<Rightarrow> js ''null'' | Some e \<Rightarrow> message e))
            in (\<lparr>statusCode = 502,
                 json = \<lparr>b_success = False, b_reason = msg,
                          b_attempts = Some (attempts result), b_apiStatus = None,
                          b_apiErrorCode = None, b_apiBody = None,
                          b_submittedFields = None, b_labelChecks = None\<rparr>\<rparr>, log))
         else
           (case api_result.response result of
              None \<Rightarrow>
                (\<lparr>statusCode = 502,
                  json = \<lparr>b_success = False,
                           b_reason = js ''External API returned an error status'',
                           b_attempts = Some (attempts result), b_apiStatus = None,
                           b_apiErrorCode = Some Null, b_apiBody = Some Null,
                           b_submittedFields = None, b_labelChecks = None\<rparr>\<rparr>, log)
            | Some resp \<Rightarrow>
                if status resp < 200 \<or> status resp \<ge> 300 then
                  (\<lparr>statusCode = 502,
                    json = \<lparr>b_success = False,
                             b_reason = js ''External API returned an error status'',
                             b_attempts = Some (attempts result),
                             b_apiStatus = Some (status resp),
                             b_apiErrorCode = Some (ocrExitCode (data resp)),
                             b_apiBody = Some (data resp),
                             b_submittedFields = None, b_labelChecks = None\<rparr>\<rparr>, log)
                else
                  (let jsonString = stringifyApiData E (data resp);
                       parsedText = extractParsedText (data resp) jsonString;
                       exitCode = ocrExitCode (data resp)
                   in if isErrorExitCode exitCode then
                        (\<lparr>statusCode = 400,
                          json = \<lparr>b_success = False,
                                   b_reason = js ''External API returned an error code in payload'',
                                   b_attempts = Some (attempts result), b_apiStatus = None,
                                   b_apiErrorCode = Some exitCode, b_apiBody = None,
                                   b_submittedFields = None, b_labelChecks = None\<rparr>\<rparr>, log)
                      else
                        (let labelChecks = verifyLabels E parsedText requestData
                         in (\<lparr>statusCode = 200,
                              json = \<lparr>b_success = isVerificationComplete labelChecks,
                                       b_reason =
                                         (if isVerificationComplete labelChecks
                                          then js ''All labels verified successfully''
                                          else js ''Could not find required labels in image''),
                                       b_attempts = Some (attempts result), b_apiStatus = None,
                                       b_apiErrorCode = None, b_apiBody = None,
                                       b_submittedFields = Some requestData,
                                       b_labelChecks = Some labelChecks\<rparr>\<rparr>, log)))))"

text \<open>
  The upload middleware of \<open>createUploadMiddleware\<close>: the error multer reports, if any,
  is answered at once; otherwise the next handler runs.
\<close>

datatype upload_error = MulterError string | OtherError

definition plainReply :: "nat \<Rightarrow> jsstring \<Rightarrow> reply" where
  "plainReply st reason =
     \<lparr>statusCode = st,
      json = \<lparr>b_success = False, b_reason = reason, b_attempts = None, b_apiStatus = None,
               b_apiErrorCode = None, b_apiBody = None, b_submittedFields = None,
               b_labelChecks = None\<rparr>\<rparr>"

fun uploadMiddleware :: "upload_error option \<Rightarrow> reply option" where
  "uploadMiddleware None = None"
| "uploadMiddleware (Some (MulterError c)) =
     (if c = ''LIMIT_FILE_SIZE''
      then Some (plainReply 400 (js ''Image file is too large. Please select a smaller image.''))
      else Some (plainReply 400 (js ''File upload error. Please try again.'')))"
| "uploadMiddleware (Some OtherError) =
     Some (plainReply 400 (js ''File upload error. Please try again.''))"

text \<open>
  The handler of \<open>POST /upload\<close> in \<open>server.js\<close>. None of the modelled operations
  throws, so its \<open>catch\<close> branch has no case.
\<close>

definition upload_handler :: "engine \<Rightarrow> vendor \<Rightarrow> request \<Rightarrow> reply \<times> event list" where
  "upload_handler E V req =
     (case req_file req of
        None \<Rightarrow> (plainReply 400 (js ''Please select an image file to upload.''), [])
      | Some f \<Rightarrow> processOcrResponse E V req f)"

definition upload_route ::
  "engine \<Rightarrow> vendor \<Rightarrow> upload_error option \<Rightarrow> request \<Rightarrow> reply \<times> event list" where
  "upload_route E V err req =
     (case uploadMiddleware err of
        Some r \<Rightarrow> (r, [])
      | None \<Rightarrow> upload_handler E V req)"

section \<open>Notions used in the statements\<close>

text \<open>
  An attempt is retryable when it is rejected with a timeout or with an error that
  carries a response of status 500 or more: the test of the \<open>catch\<close> branch.
\<close>

fun retryable :: "outcome \<Rightarrow> bool" where
  "retryable (Resolved resp) = False"
| "retryable (Rejected err) = (isTimeout err \<or> isServerErr err)"

text \<open>The attempts posted and the sleeps made, in order.\<close>

fun posts :: "event list \<Rightarrow> nat list" where
  "posts [] = []"
| "posts (Post k # es) = k # posts es"
| "posts (Sleep ms # es) = posts es"

fun sleeps :: "event list \<Rightarrow> nat list" where
  "sleeps [] = []"
| "sleeps (Post k # es) = sleeps es"
| "sleeps (Sleep ms # es) = ms # sleeps es"









text \<open>
  A tidy text has no white space but single spaces: what \<open>replace(/\s+/g, " ")\<close>
  returns. An engine is closed when its NFKD is idempotent, when collapsing, trimming
  and lower-casing keep a text in NFKD form, and when lower-casing is idempotent and
  keeps a tidy, trimmed text tidy and trimmed.
\<close>

fun tidy :: "jsstring \<Rightarrow> bool" where
  "tidy [] = True"
| "tidy [c] = (if isWhiteSpace c then c = 32 else True)"
| "tidy (c # d # cs) = ((if isWhiteSpace c then c = 32 \<and> \<not> isWhiteSpace d else True) \<and> tidy (d # cs))"

definition engine_closed :: "engine \<Rightarrow> bool" where
  "engine_closed E \<longleftrightarrow>
     (\<forall>s. String_normalizeNFKD E (String_normalizeNFKD E s) = String_normalizeNFKD E s)
     \<and> (\<forall>x. String_normalizeNFKD E x = x \<longrightarrow>
            String_normalizeNFKD E (collapse_ws x) = collapse_ws x
            \<and> String_normalizeNFKD E (trim x) = trim x
            \<and> String_normalizeNFKD E (String_toLowerCase E x) = String_toLowerCase E x)
     \<and> (\<forall>x. tidy x \<and> trim x = x \<longrightarrow>
            tidy (String_toLowerCase E x) \<and> trim (String_toLowerCase E x) = String_toLowerCase E x)
     \<and> (\<forall>x. String_toLowerCase E (String_toLowerCase E x) = String_toLowerCase E x)"

text \<open>
  Concrete inputs of the examples. The examples are ASCII texts and short decimals,
  which the model computes without the engine's tables, so any engine serves.
\<close>

definition example_engine :: engine where
  "example_engine =
     \<lparr>normalizeNFKD = (\<lambda>s. s), toLowerCase = (\<lambda>s. s), roundToDouble = (\<lambda>x. x),
      JSON_stringify = (\<lambda>v. js ''null'')\<rparr>"

definition always_500 :: vendor where
  "always_500 fileBuffer filename contentType attempt = Answered 500 Null"

definition always_timeout :: vendor where
  "always_timeout fileBuffer filename contentType attempt = TimedOut"

definition timeout_then_503 :: vendor where
  "timeout_then_503 fileBuffer filename contentType attempt =
     (if attempt = 1 then TimedOut else Answered 503 Null)"

definition example_file :: upload_file where
  "example_file = \<lparr>buffer = [137, 80, 78, 71], originalname = js ''label.png'',
                    mimetype = js ''image/png''\<rparr>"

definition example_request :: request where
  "example_request =
     \<lparr>req_file = Some example_file,
      req_body = \<lparr>brandName = Some (js ''Old Tom''), productClass = None,
                   alcoholContent = Some (js ''13.5'')\<rparr>\<rparr>"

definition example_body :: jsval where
  "example_body =
     Obj [(''ParsedResults'',
           Arr [Obj [(''ParsedText'', Str (js ''Old Tom's Gin''))],
                Obj [(''ParsedText'', Str (js ''40% abv''))]]),
          (''OCRExitCode'', Num (Finite False [1] 1))]"



definition example_text :: jsstring where
  "example_text = js ''Old Tom's Gin'' @ [10] @ js ''40% abv''"

definition answers_label :: vendor where
  "answers_label fileBuffer filename contentType attempt = Answered 200 example_body"

section \<open>The retry loop, unfolded\<close>

lemma post_loop_done:
  "post_loop post (Suc (Suc (Suc 0))) lastErr log =
     (\<lparr>success = False, response = None, error = lastErr, attempts = Suc (Suc (Suc 0))\<rparr>, log)"
  by (subst post_loop.simps) (simp add: MAX_RETRIES_def)

lemma post_loop_step:
  "attempt < 3 \<Longrightarrow>
   post_loop post attempt lastErr log =
     (case post (Suc attempt) of
        Resolved resp \<Rightarrow>
          (\<lparr>success = True, response = Some resp, error = None, attempts = Suc attempt\<rparr>,
           log @ [Post (Suc attempt)])
      | Rejected err \<Rightarrow>
          if isTimeout err \<or> isServerErr err then
            post_loop post (Suc attempt) (Some err)
              (log @ [Post (Suc attempt), Sleep (1000 * 2 ^ attempt)])
          else
            (\<lparr>success = False, response = None, error = Some err, attempts = Suc attempt\<rparr>,
             log @ [Post (Suc attempt)]))"
  by (subst post_loop.simps)
     (simp add: MAX_RETRIES_def INITIAL_BACKOFF_MS_def cong: outcome.case_cong if_cong)

text \<open>Every run of the loop from the start, by how the three attempts settle.\<close>

lemma post_loop_cases:
  "post_loop post 0 None [] =
    (case post 1 of
       Resolved r1 \<Rightarrow>
         (\<lparr>success = True, response = Some r1, error = None, attempts = 1\<rparr>, [Post 1])
     | Rejected e1 \<Rightarrow>
         if \<not> retryable (Rejected e1) then
           (\<lparr>success = False, response = None, error = Some e1, attempts = 1\<rparr>, [Post 1])
         else
           (case post 2 of
              Resolved r2 \<Rightarrow>
                (\<lparr>success = True, response = Some r2, error = None, attempts = 2\<rparr>,
                 [Post 1, Sleep 1000, Post 2])
            | Rejected e2 \<Rightarrow>
                if \<not> retryable (Rejected e2) then
                  (\<lparr>success = False, response = None, error = Some e2, attempts = 2\<rparr>,
                   [Post 1, Sleep 1000, Post 2])
                else
                  (case post 3 of
                     Resolved r3 \<Rightarrow>
                       (\<lparr>success = True, response = Some r3, error = None, attempts = 3\<rparr>,
                        [Post 1, Sleep 1000, Post 2, Sleep 2000, Post 3])
                   | Rejected e3 \<Rightarrow>
                       if \<not> retryable (Rejected e3) then
                         (\<lparr>success = False, response = None, error = Some e3, attempts = 3\<rparr>,
                          [Post 1, Sleep 1000, Post 2, Sleep 2000, Post 3])
                       else
                         (\<lparr>success = False, response = None, error = Some e3, attempts = 3\<rparr>,
                          [Post 1, Sleep 1000, Post 2, Sleep 2000, Post 3, Sleep 4000]))))"
  by (auto simp: post_loop_step post_loop_done numeral_2_eq_2 numeral_3_eq_3
           split: outcome.splits)

lemma answer_resolves:
  "axios_post None (Answered st d) = Resolved \<lparr>status = st, data = d\<rparr>"
  by (simp add: axios_post_def)

lemma timeout_retryable: "retryable (axios_post None TimedOut)"
  by (simp add: axios_post_def isTimeout_def)

lemma failure_rejects: "axios_post None (Failed err) = Rejected err"
  by (simp add: axios_post_def)

lemma loop_attempts:
  "attempts (fst (post_loop post 0 None [])) \<in> {1, 2, 3}
   \<and> posts (snd (post_loop post 0 None []))
       = [1 ..< Suc (attempts (fst (post_loop post 0 None [])))]"
  by (auto simp: post_loop_cases upt_rec numeral_2_eq_2 numeral_3_eq_3 split: outcome.splits)

lemma loop_retry_iff:
  "Post (Suc (Suc k)) \<in> set (snd (post_loop post 0 None []))
   \<longleftrightarrow> Post (Suc k) \<in> set (snd (post_loop post 0 None []))
        \<and> Suc k < 3 \<and> retryable (post (Suc k))"
  by (auto simp: post_loop_cases numeral_2_eq_2 numeral_3_eq_3 split: outcome.splits)

lemma loop_exhausted:
  "retryable (post 1) \<and> retryable (post 2) \<and> retryable (post 3) \<Longrightarrow>
   \<not> success (fst (post_loop post 0 None []))
   \<and> attempts (fst (post_loop post 0 None [])) = 3"
  by (auto simp: post_loop_cases split: outcome.splits)

lemma loop_success_iff:
  "success (fst (post_loop post 0 None []))
   \<longleftrightarrow> (\<exists>resp. post (attempts (fst (post_loop post 0 None []))) = Resolved resp)"
  by (auto simp: post_loop_cases split: outcome.splits)

lemma loop_resolved:
  "post (attempts (fst (post_loop post 0 None []))) = Resolved resp \<Longrightarrow>
   fst (post_loop post 0 None [])
     = \<lparr>success = True, response = Some resp, error = None,
        attempts = attempts (fst (post_loop post 0 None []))\<rparr>"
  by (auto simp: post_loop_cases split: outcome.splits)

lemma loop_rejected:
  "post (attempts (fst (post_loop post 0 None []))) = Rejected err \<Longrightarrow>
   fst (post_loop post 0 None [])
     = \<lparr>success = False, response = None, error = Some err,
        attempts = attempts (fst (post_loop post 0 None []))\<rparr>"
  by (auto simp: post_loop_cases split: outcome.splits)

lemma loop_last_attempt:
  "Post (Suc k) \<in> set (snd (post_loop post 0 None [])) \<Longrightarrow>
   attempts (fst (post_loop post 0 None [])) = Suc k
   \<longleftrightarrow> Suc k = 3 \<or> \<not> retryable (post (Suc k))"
  by (auto simp: post_loop_cases numeral_2_eq_2 numeral_3_eq_3 split: outcome.splits if_splits)

lemma answer_ends_call:
  "V fileBuffer filename contentType (Suc k) = Answered st d \<Longrightarrow>
   Post (Suc k) \<in> set (snd (postToExternalApi V fileBuffer filename contentType)) \<Longrightarrow>
   fst (postToExternalApi V fileBuffer filename contentType)
     = \<lparr>success = True, response = Some \<lparr>status = st, data = d\<rparr>, error = None,
        attempts = Suc k\<rparr>"
proof -
  let ?post = "\<lambda>attempt. axios_post None (V fileBuffer filename contentType attempt)"
  assume v: "V fileBuffer filename contentType (Suc k) = Answered st d"
    and p: "Post (Suc k) \<in> set (snd (postToExternalApi V fileBuffer filename contentType))"
  have r: "?post (Suc k) = Resolved \<lparr>status = st, data = d\<rparr>"
    using v by (simp add: answer_resolves)
  have "attempts (fst (post_loop ?post 0 None [])) = Suc k"
    using loop_last_attempt [of k ?post] p r by (simp add: postToExternalApi_def)
  then show ?thesis
    using loop_resolved [of ?post "\<lparr>status = st, data = d\<rparr>"] r
    by (simp add: postToExternalApi_def)
qed

lemma first_answer_ends_call:
  "V fileBuffer filename contentType 1 = Answered st d \<Longrightarrow>
   postToExternalApi V fileBuffer filename contentType
     = (\<lparr>success = True, response = Some \<lparr>status = st, data = d\<rparr>, error = None,
         attempts = 1\<rparr>, [Post 1])"
  by (simp add: postToExternalApi_def post_loop_cases axios_post_def)

lemma failure_502:
  "\<not> success (fst (postToExternalApi V (buffer f) (originalname f) (mimetype f))) \<Longrightarrow>
   statusCode (fst (processOcrResponse E V req f)) = 502
   \<and> \<not> b_success (json (fst (processOcrResponse E V req f)))
   \<and> b_attempts (json (fst (processOcrResponse E V req f)))
       = Some (attempts (fst (postToExternalApi V (buffer f) (originalname f) (mimetype f))))"
  by (cases "postToExternalApi V (buffer f) (originalname f) (mimetype f)")
     (simp add: processOcrResponse_def Let_def)

lemma error_status_502:
  "V (buffer f) (originalname f) (mimetype f) (Suc k) = Answered st d \<Longrightarrow>
   Post (Suc k) \<in> set (snd (postToExternalApi V (buffer f) (originalname f) (mimetype f))) \<Longrightarrow>
   st < 200 \<or> 300 \<le> st \<Longrightarrow>
   statusCode (fst (processOcrResponse E V req f)) = 502
   \<and> b_apiStatus (json (fst (processOcrResponse E V req f))) = Some st
   \<and> b_attempts (json (fst (processOcrResponse E V req f))) = Some (Suc k)"
  using answer_ends_call [of V "buffer f" "originalname f" "mimetype f" k st d]
  by (cases "postToExternalApi V (buffer f) (originalname f) (mimetype f)")
     (auto simp: processOcrResponse_def Let_def)

lemma always_timeout_result:
  "postToExternalApi always_timeout b n m
     = (\<lparr>success = False, response = None,
         error = Some \<lparr>code = Some ''ECONNABORTED'', response = None,
                        message = js ''timeout of 60000ms exceeded''\<rparr>,
         attempts = 3\<rparr>,
        [Post 1, Sleep 1000, Post 2, Sleep 2000, Post 3, Sleep 4000])"
  by (simp add: postToExternalApi_def post_loop_cases always_timeout_def axios_post_def
        isTimeout_def)

lemma timeout_then_503_result:
  "postToExternalApi timeout_then_503 b n m
     = (\<lparr>success = True, response = Some \<lparr>status = 503, data = Null\<rparr>, error = None,
         attempts = 2\<rparr>, [Post 1, Sleep 1000, Post 2])"
  by (simp add: postToExternalApi_def post_loop_cases timeout_then_503_def axios_post_def
        isTimeout_def)

lemma always_500_result:
  "postToExternalApi always_500 b n m
     = (\<lparr>success = True, response = Some \<lparr>status = 500, data = Null\<rparr>, error = None,
         attempts = 1\<rparr>, [Post 1])"
  by (simp add: first_answer_ends_call always_500_def)

lemma always_500_reply:
  "statusCode (fst (processOcrResponse E always_500 req f)) = 502
   \<and> b_apiStatus (json (fst (processOcrResponse E always_500 req f))) = Some 500
   \<and> b_attempts (json (fst (processOcrResponse E always_500 req f))) = Some 1"
  by (simp add: processOcrResponse_def Let_def always_500_result)

lemma answers_label_result:
  "postToExternalApi answers_label b n m
     = (\<lparr>success = True, response = Some \<lparr>status = 200, data = example_body\<rparr>, error = None,
         attempts = 1\<rparr>, [Post 1])"
  by (simp add: first_answer_ends_call answers_label_def)

lemma processOcrResponse_log:
  "snd (processOcrResponse E V req f)
     = snd (postToExternalApi V (buffer f) (originalname f) (mimetype f))"
  by (cases "postToExternalApi V (buffer f) (originalname f) (mimetype f)")
     (simp add: processOcrResponse_def Let_def split: option.splits)

lemma first_post_made: "Post 1 \<in> set (snd (postToExternalApi V b n m))"
  by (auto simp: postToExternalApi_def post_loop_cases split: outcome.splits)

section \<open>Examples, evaluated\<close>

lemma normalize_blank: "normalize_str example_engine (js '' '') = []"
  by (simp add: normalize_str_def String_normalizeNFKD_def String_toLowerCase_def isASCII_def
        js_def trim_def isWhiteSpace_def)

lemma example_exit_code: "\<not> isErrorExitCode (ocrExitCode example_body)"
  by (simp add: isErrorExitCode_def ocrExitCode_def example_body_def)

lemma example_body_text: "extractParsedText example_body jsonString = example_text"
  by (simp add: extractParsedText_def example_body_def example_text_def)

lemma example_checks:
  "verifyLabels example_engine example_text (extractRequestData example_request)
   = \<lparr>found = [''brandName''], missing = [''alcoholContent'']\<rparr>"
  by (simp add: verifyLabels_def extractRequestData_def example_request_def normalize_str_def
        example_text_def String_normalizeNFKD_def String_toLowerCase_def isASCII_def
        asciiLower_def js_def trim_def isWhiteSpace_def
        alcoholFound_def parseFloat_def isDigit_def toDouble_def digitsOf_def exponentPart_def
        finite_toString_def digitChars_def alcohol_RegExp_def RegExp_test_def canonicalize_def)

section \<open>normalize, applied twice\<close>

text \<open>
  The three steps after the decomposition are idempotent together: the collapsed,
  trimmed text is tidy and trimmed, and stays so. Hence \<open>normalize\<close> is idempotent on
  every ASCII text, whatever the engine, and on every text for a closed engine.
\<close>

lemma collapse_ws_head:
  "\<not> isWhiteSpace c \<Longrightarrow> collapse_ws (c # cs) = c # collapse_ws cs"
  by simp

lemma dropWhile_ws_head:
  "dropWhile isWhiteSpace cs = d # ds \<Longrightarrow> \<not> isWhiteSpace d"
  by (metis hd_dropWhile list.discI list.sel(1))

lemma tidy_collapse_ws: "tidy (collapse_ws s)"
proof (induction s rule: collapse_ws.induct)
  case 1
  then show ?case by simp
next
  case (2 c cs)
  show ?case
  proof (cases "isWhiteSpace c")
    case True
    show ?thesis
    proof (cases "dropWhile isWhiteSpace cs")
      case Nil
      with True show ?thesis by (simp del: dropWhile_eq_Nil_conv)
    next
      case (Cons d ds)
      then have nd: "\<not> isWhiteSpace d" by (rule dropWhile_ws_head)
      from 2(1) [OF True] Cons have "tidy (collapse_ws (d # ds))" by simp
      with True Cons nd show ?thesis by simp
    qed
  next
    case False
    from 2(2) [OF False] have t: "tidy (collapse_ws cs)" .
    show ?thesis
    proof (cases "collapse_ws cs")
      case Nil
      with False show ?thesis by simp
    next
      case (Cons e es)
      with False t show ?thesis by simp
    qed
  qed
qed

lemma collapse_ws_tidy: "tidy s \<Longrightarrow> collapse_ws s = s"
  by (induction s rule: tidy.induct) (auto split: if_splits)

lemma tidy_append: "tidy (a @ b) \<Longrightarrow> tidy a \<and> tidy b"
proof (induction a rule: tidy.induct)
  case 1
  then show ?case by simp
next
  case (2 c)
  then show ?case by (cases b) (auto split: if_splits)
next
  case (3 c d cs)
  then show ?case by (auto split: if_splits)
qed

lemma trim_infix: "\<exists>p q. s = p @ trim s @ q"
proof -
  have 1: "s = takeWhile isWhiteSpace s @ dropWhile isWhiteSpace s" by simp
  have "dropWhile isWhiteSpace s
        = rev (dropWhile isWhiteSpace (rev (dropWhile isWhiteSpace s)))
          @ rev (takeWhile isWhiteSpace (rev (dropWhile isWhiteSpace s)))"
    by (metis rev_append rev_rev_ident takeWhile_dropWhile_id)
  then have "s = takeWhile isWhiteSpace s @ trim s
                 @ rev (takeWhile isWhiteSpace (rev (dropWhile isWhiteSpace s)))"
    using 1 by (simp add: trim_def)
  then show ?thesis by blast
qed

lemma tidy_trim: "tidy s \<Longrightarrow> tidy (trim s)"
  using trim_infix [of s] tidy_append by metis

lemma trim_trim: "trim (trim s) = trim s"
proof -
  let ?u = "dropWhile isWhiteSpace s"
  let ?v = "trim s"
  have v: "rev ?v = dropWhile isWhiteSpace (rev ?u)" by (simp add: trim_def)
  have rear: "dropWhile isWhiteSpace (rev ?v) = rev ?v"
    unfolding v by (rule dropWhile_idem)
  have u: "?u = ?v @ rev (takeWhile isWhiteSpace (rev ?u))"
    by (metis rev_append rev_rev_ident takeWhile_dropWhile_id trim_def)
  have front: "dropWhile isWhiteSpace ?v = ?v"
  proof (cases ?v)
    case Nil
    then show ?thesis by simp
  next
    case (Cons c cs)
    with u have "?u = c # (cs @ rev (takeWhile isWhiteSpace (rev ?u)))" by simp
    then have "\<not> isWhiteSpace c" by (rule dropWhile_ws_head)
    with Cons show ?thesis by simp
  qed
  have "trim ?v = rev (dropWhile isWhiteSpace (rev (dropWhile isWhiteSpace ?v)))"
    by (simp add: trim_def)
  also have "\<dots> = rev (dropWhile isWhiteSpace (rev ?v))" by (simp only: front)
  also have "\<dots> = ?v" by (simp only: rear rev_rev_ident)
  finally show ?thesis .
qed

lemma asciiLower_ws: "isWhiteSpace (asciiLower c) = isWhiteSpace c"
  by (auto simp: asciiLower_def isWhiteSpace_def)

lemma asciiLower_32: "asciiLower 32 = 32"
  by (simp add: asciiLower_def)

lemma dropWhile_ws_map: "dropWhile isWhiteSpace (map asciiLower s) = map asciiLower (dropWhile isWhiteSpace s)"
  by (induction s) (auto simp: asciiLower_ws)

lemma collapse_ws_map: "collapse_ws (map asciiLower s) = map asciiLower (collapse_ws s)"
proof (induction s rule: collapse_ws.induct)
  case 1
  then show ?case by simp
next
  case (2 c cs)
  show ?case
  proof (cases "isWhiteSpace c")
    case True
    with 2(1) show ?thesis by (simp add: asciiLower_ws dropWhile_ws_map asciiLower_32)
  next
    case False
    with 2(2) show ?thesis by (simp add: asciiLower_ws)
  qed
qed

lemma trim_map: "trim (map asciiLower s) = map asciiLower (trim s)"
  by (simp add: trim_def dropWhile_ws_map rev_map)

lemma asciiLower_idem: "asciiLower (asciiLower c) = asciiLower c"
  by (simp add: asciiLower_def)

lemma isASCII_collapse: "isASCII s \<Longrightarrow> isASCII (collapse_ws s)"
  by (induction s rule: collapse_ws.induct) (auto simp: isASCII_def list_all_iff dest: set_dropWhileD)

lemma isASCII_trim: "isASCII s \<Longrightarrow> isASCII (trim s)"
  by (auto simp: isASCII_def trim_def list_all_iff dest!: set_dropWhileD)

lemma isASCII_lower: "isASCII s \<Longrightarrow> isASCII (map asciiLower s)"
  by (auto simp: isASCII_def list_all_iff asciiLower_def)

lemma normalize_ascii:
  "isASCII s \<Longrightarrow> normalize_str E s = map asciiLower (trim (collapse_ws s))"
  by (simp add: normalize_str_def String_normalizeNFKD_def String_toLowerCase_def
        isASCII_collapse isASCII_trim)

lemma normalize_idempotent_ascii:
  "isASCII s \<Longrightarrow> normalize_str E (normalize_str E s) = normalize_str E s"
proof -
  assume a: "isASCII s"
  let ?z = "trim (collapse_ws s)"
  have az: "isASCII (map asciiLower ?z)"
    using a by (simp add: isASCII_collapse isASCII_trim isASCII_lower)
  have tz: "tidy ?z" by (simp add: tidy_collapse_ws tidy_trim)
  have "normalize_str E (normalize_str E s)
        = map asciiLower (trim (collapse_ws (map asciiLower ?z)))"
    using a az by (simp add: normalize_ascii)
  also have "\<dots> = map asciiLower (map asciiLower (trim (collapse_ws ?z)))"
    by (simp add: collapse_ws_map trim_map)
  also have "\<dots> = map asciiLower (trim ?z)"
    using tz by (simp add: collapse_ws_tidy asciiLower_idem)
  also have "\<dots> = map asciiLower ?z" by (simp add: trim_trim)
  also have "\<dots> = normalize_str E s" using a by (simp add: normalize_ascii)
  finally show ?thesis .
qed

lemma normalize_idempotent_closed:
  assumes "engine_closed E"
  shows "normalize_str E (normalize_str E s) = normalize_str E s"
proof -
  let ?x = "String_normalizeNFKD E s"
  let ?z = "trim (collapse_ws ?x)"
  let ?y = "String_toLowerCase E ?z"
  have n0: "String_normalizeNFKD E ?x = ?x" using assms by (simp add: engine_closed_def)
  then have n1: "String_normalizeNFKD E (collapse_ws ?x) = collapse_ws ?x"
    using assms unfolding engine_closed_def by blast
  then have n2: "String_normalizeNFKD E ?z = ?z"
    using assms unfolding engine_closed_def by blast
  then have n3: "String_normalizeNFKD E ?y = ?y"
    using assms unfolding engine_closed_def by blast
  have tz: "tidy ?z \<and> trim ?z = ?z" by (simp add: tidy_collapse_ws tidy_trim trim_trim)
  then have ty: "tidy ?y \<and> trim ?y = ?y"
    using assms unfolding engine_closed_def by blast
  have ly: "String_toLowerCase E ?y = ?y" using assms unfolding engine_closed_def by blast
  have "normalize_str E ?y = String_toLowerCase E (trim (collapse_ws ?y))"
    by (simp add: normalize_str_def n3)
  also have "\<dots> = ?y" using ty ly by (simp add: collapse_ws_tidy)
  finally show ?thesis by (simp add: normalize_str_def)
qed

section \<open>The pattern of the alcohol matcher, characterised\<close>


















lemma bnd_step:
  "(q1, t1) \<in> set (rx_step WordBoundary (p, s))
   \<longleftrightarrow> isWordChar p \<noteq> isWordChar (nextChar s) \<and> q1 = p \<and> t1 = s"
  by auto























section \<open>Response text extractor, page by page\<close>


section \<open>Retrying API client\<close>

text \<open>
  Claim C1, as the code has it. The call makes at least one and at most three attempts,
  numbered 1, 2, 3 in order. An attempt is followed by another exactly when it is not the
  third and axios rejects it with a timeout (code \<open>ECONNABORTED\<close>) or with an error that
  carries a response of status 500 or more. The call returns \<open>success: true\<close> exactly
  when its last attempt resolves, with the response of that attempt, and otherwise
  \<open>success: false\<close> with the error of its last attempt; three retryable rejections give
  \<open>success: false\<close> with \<open>attempts == 3\<close>, and every \<open>success: false\<close> is answered with
  HTTP 502 and the attempt count. The request is posted with \<open>validateStatus: null\<close>, so
  an answer of the vendor resolves whatever its status, while a timeout is a retryable
  rejection: an answer at attempt \<open>k\<close> ends the call with \<open>success: true\<close>,
  \<open>attempts == k\<close> and that answer, and when its status is outside 2xx the orchestrator
  answers 502 carrying that status and \<open>k\<close>. A vendor that answers every attempt with
  status 500 is asked once: \<open>success: true\<close>, \<open>attempts == 1\<close>, and the reply is 502.
\<close>

theorem retry_policy:
  "attempts (fst (post_loop post 0 None [])) \<in> {1, 2, 3}
   \<and> posts (snd (post_loop post 0 None []))
       = [1 ..< Suc (attempts (fst (post_loop post 0 None [])))]
   \<and> (Post (Suc (Suc k)) \<in> set (snd (post_loop post 0 None []))
        \<longleftrightarrow> Post (Suc k) \<in> set (snd (post_loop post 0 None []))
             \<and> Suc k < 3 \<and> retryable (post (Suc k)))
   \<and> (success (fst (post_loop post 0 None []))
        \<longleftrightarrow> (\<exists>resp. post (attempts (fst (post_loop post 0 None []))) = Resolved resp))
   \<and> (post (attempts (fst (post_loop post 0 None []))) = Resolved resp
        \<longrightarrow> fst (post_loop post 0 None [])
              = \<lparr>success = True, response = Some resp, error = None,
                 attempts = attempts (fst (post_loop post 0 None []))\<rparr>)
   \<and> (post (attempts (fst (post_loop post 0 None []))) = Rejected err
        \<longrightarrow> fst (post_loop post 0 None [])
              = \<lparr>success = False, response = None, error = Some err,
                 attempts = attempts (fst (post_loop post 0 None []))\<rparr>)
   \<and> (retryable (post 1) \<and> retryable (post 2) \<and> retryable (post 3)
        \<longrightarrow> \<not> success (fst (post_loop post 0 None []))
            \<and> attempts (fst (post_loop post 0 None [])) = 3)
   \<and> (\<not> success (fst (postToExternalApi V (buffer f) (originalname f) (mimetype f)))
        \<longrightarrow> statusCode (fst (processOcrResponse E V req f)) = 502
            \<and> b_attempts (json (fst (processOcrResponse E V req f)))
                = Some (attempts (fst (postToExternalApi V (buffer f) (originalname f)
                                         (mimetype f)))))
   \<and> axios_post None (Answered st d) = Resolved \<lparr>status = st, data = d\<rparr>
   \<and> retryable (axios_post None TimedOut)
   \<and> (V (buffer f) (originalname f) (mimetype f) (Suc k) = Answered st d
        \<and> Post (Suc k) \<in> set (snd (postToExternalApi V (buffer f) (originalname f) (mimetype f)))
        \<longrightarrow> fst (postToExternalApi V (buffer f) (originalname f) (mimetype f))
              = \<lparr>success = True, response = Some \<lparr>status = st, data = d\<rparr>, error = None,
                 attempts = Suc k\<rparr>)
   \<and> (V (buffer f) (originalname f) (mimetype f) (Suc k) = Answered st d
        \<and> Post (Suc k) \<in> set (snd (postToExternalApi V (buffer f) (originalname f) (mimetype f)))
        \<and> (st < 200 \<or> 300 \<le> st)
        \<longrightarrow> statusCode (fst (processOcrResponse E V req f)) = 502
            \<and> b_apiStatus (json (fst (processOcrResponse E V req f))) = Some st
            \<and> b_attempts (json (fst (processOcrResponse E V req f))) = Some (Suc k))
   \<and> fst (postToExternalApi always_500 (buffer f) (originalname f) (mimetype f))
       = \<lparr>success = True, response = Some \<lparr>status = 500, data = Null\<rparr>, error = None,
          attempts = 1\<rparr>
   \<and> statusCode (fst (processOcrResponse E always_500 req f)) = 502
   \<and> b_apiStatus (json (fst (processOcrResponse E always_500 req f))) = Some 500
   \<and> b_attempts (json (fst (processOcrResponse E always_500 req f))) = Some 1"
  using loop_attempts [of post] loop_retry_iff [of k post] loop_exhausted [of post]
    loop_success_iff [of post] loop_resolved [of post resp] loop_rejected [of post err]
    answer_resolves [of st d] timeout_retryable failure_502 [of V f E req]
    answer_ends_call [of V "buffer f" "originalname f" "mimetype f" k st d]
    error_status_502 [of V f k st d E req]
    always_500_result [of "buffer f" "originalname f" "mimetype f"] always_500_reply [of E req f]
  by (simp only: fst_conv) blast

theorem retry_policy_witness:
  "retryable (axios_post None TimedOut)
   \<and> \<not> success (fst (postToExternalApi always_timeout (buffer example_file)
                       (originalname example_file) (mimetype example_file)))
   \<and> statusCode (fst (processOcrResponse example_engine always_timeout example_request
                        example_file)) = 502
   \<and> b_attempts (json (fst (processOcrResponse example_engine always_timeout example_request
                        example_file))) = Some 3
   \<and> timeout_then_503 (buffer example_file) (originalname example_file) (mimetype example_file)
       (Suc 1) = Answered 503 Null
   \<and> Post (Suc 1) \<in> set (snd (postToExternalApi timeout_then_503 (buffer example_file)
                                 (originalname example_file) (mimetype example_file)))
   \<and> fst (postToExternalApi timeout_then_503 (buffer example_file)
            (originalname example_file) (mimetype example_file))
       = \<lparr>success = True, response = Some \<lparr>status = 503, data = Null\<rparr>, error = None,
          attempts = 2\<rparr>
   \<and> statusCode (fst (processOcrResponse example_engine timeout_then_503 example_request
                        example_file)) = 502
   \<and> b_apiStatus (json (fst (processOcrResponse example_engine timeout_then_503 example_request
                        example_file))) = Some 503
   \<and> b_attempts (json (fst (processOcrResponse example_engine timeout_then_503 example_request
                        example_file))) = Some 2"
  using
    retry_policy [of "\<lambda>k. axios_post None TimedOut" 0
      "\<lparr>status = 503, data = Null\<rparr>"
      "\<lparr>code = Some ''ECONNABORTED'', response = None,
        message = js ''timeout of 60000ms exceeded''\<rparr>"
      always_timeout example_file example_engine example_request 503 Null]
    retry_policy [of "\<lambda>k. axios_post None (timeout_then_503 [] [] [] k)" 1
      "\<lparr>status = 503, data = Null\<rparr>"
      "\<lparr>code = Some ''ECONNABORTED'', response = None,
        message = js ''timeout of 60000ms exceeded''\<rparr>"
      timeout_then_503 example_file example_engine example_request 503 Null]
  by (simp add: always_timeout_result timeout_then_503_result timeout_then_503_def)

text \<open>
  The vendor answers every attempt with status 500: the first answer resolves, and the
  call returns \<open>success: true\<close> after one attempt, not \<open>success: false\<close> after three.
\<close>

theorem always_500_counterexample:
  "postToExternalApi always_500 (buffer example_file) (originalname example_file)
     (mimetype example_file)
     = (\<lparr>success = True, response = Some \<lparr>status = 500, data = Null\<rparr>, error = None,
         attempts = 1\<rparr>, [Post 1])"
  by (simp add: always_500_result)

lemma sleeps_law:
  "sleeps (snd (post_loop post 0 None []))
     = map (\<lambda>k. 1000 * 2 ^ (k - 1))
         (filter (\<lambda>k. retryable (post k)) (posts (snd (post_loop post 0 None []))))"
  by (auto simp: post_loop_cases split: outcome.splits)

text \<open>
  Claim C2. The loop sleeps after every attempt that fails retryably, attempt \<open>k\<close> by
  \<open>1000 * 2^(k-1)\<close> ms: 1 s before the second attempt and 2 s before the third, but also
  4 s after the third attempt, which no retry follows. When every attempt times out, the
  call sleeps 1000, 2000 and then 4000 ms before it returns the failure.
\<close>

theorem sleep_after_final_attempt:
  "sleeps (snd (post_loop post 0 None []))
     = map (\<lambda>k. 1000 * 2 ^ (k - 1))
         (filter (\<lambda>k. retryable (post k)) (posts (snd (post_loop post 0 None []))))
   \<and> snd (postToExternalApi always_timeout (buffer example_file) (originalname example_file)
            (mimetype example_file))
       = [Post 1, Sleep 1000, Post 2, Sleep 2000, Post 3, Sleep 4000]
   \<and> attempts (fst (postToExternalApi always_timeout (buffer example_file)
                      (originalname example_file) (mimetype example_file))) = 3
   \<and> \<not> success (fst (postToExternalApi always_timeout (buffer example_file)
                      (originalname example_file) (mimetype example_file)))"
  using sleeps_law [of post] by (simp add: always_timeout_result)

section \<open>Request orchestrator\<close>

text \<open>
  Claim C7. When the vendor call succeeds at the transport level, the status is 2xx and
  the payload carries no error exit code, the reply is HTTP 200 whatever the match
  outcome: it carries the found and missing sets of \<open>verifyLabels\<close>, and its verdict is
  \<open>isVerificationComplete\<close> of them, false as soon as a submitted field is missing.
\<close>

theorem verification_always_200:
  "postToExternalApi V (buffer f) (originalname f) (mimetype f) = (result, log)
   \<and> success result \<and> api_result.response result = Some resp
   \<and> 200 \<le> status resp \<and> status resp < 300
   \<and> \<not> isErrorExitCode (ocrExitCode (data resp))
   \<longrightarrow> statusCode (fst (processOcrResponse E V req f)) = 200
       \<and> snd (processOcrResponse E V req f) = log
       \<and> b_attempts (json (fst (processOcrResponse E V req f))) = Some (attempts result)
       \<and> b_submittedFields (json (fst (processOcrResponse E V req f)))
           = Some (extractRequestData req)
       \<and> b_labelChecks (json (fst (processOcrResponse E V req f)))
           = Some (verifyLabels E
                     (extractParsedText (data resp) (stringifyApiData E (data resp)))
                     (extractRequestData req))
       \<and> b_success (json (fst (processOcrResponse E V req f)))
           = isVerificationComplete
               (verifyLabels E
                  (extractParsedText (data resp) (stringifyApiData E (data resp)))
                  (extractRequestData req))
       \<and> (missing (verifyLabels E
                      (extractParsedText (data resp) (stringifyApiData E (data resp)))
                      (extractRequestData req)) \<noteq> []
            \<longrightarrow> \<not> b_success (json (fst (processOcrResponse E V req f))))"
  by (auto simp: processOcrResponse_def Let_def isVerificationComplete_def)

theorem verification_always_200_witness:
  "statusCode (fst (processOcrResponse example_engine answers_label example_request example_file))
     = 200
   \<and> b_labelChecks (json (fst (processOcrResponse example_engine answers_label example_request
        example_file)))
       = Some \<lparr>found = [''brandName''], missing = [''alcoholContent'']\<rparr>
   \<and> \<not> b_success (json (fst (processOcrResponse example_engine answers_label example_request
        example_file)))"
  using verification_always_200 [of answers_label example_file
      "\<lparr>success = True, response = Some \<lparr>status = 200, data = example_body\<rparr>, error = None,
         attempts = 1\<rparr>" "[Post 1]" "\<lparr>status = 200, data = example_body\<rparr>"
      example_engine example_request]
  by (simp add: answers_label_result example_exit_code example_body_text example_checks
        isVerificationComplete_def)

text \<open>
  Claim C9. A request that reaches the handler with no file is answered with HTTP 400
  and the reason \<open>Please select an image file to upload.\<close>, and no request is posted to
  the vendor: the effects of the handler are empty. So are those of the whole route,
  which answers 400 also when the upload middleware reports an error. (With a file, the
  first attempt is always posted, so empty effects do mean that the vendor was not
  called.)
\<close>

theorem no_file_no_vendor_call:
  "(req_file req = None \<longrightarrow>
      statusCode (fst (upload_handler E V req)) = 400
      \<and> b_reason (json (fst (upload_handler E V req)))
          = js ''Please select an image file to upload.''
      \<and> \<not> b_success (json (fst (upload_handler E V req)))
      \<and> snd (upload_handler E V req) = []
      \<and> upload_route E V None req = upload_handler E V req
      \<and> statusCode (fst (upload_route E V err req)) = 400
      \<and> snd (upload_route E V err req) = [])
   \<and> (req_file req = Some f \<longrightarrow> Post 1 \<in> set (snd (upload_handler E V req)))"
  using first_post_made [of V "buffer f" "originalname f" "mimetype f"]
  by (cases err rule: uploadMiddleware.cases)
     (auto simp: upload_handler_def upload_route_def plainReply_def processOcrResponse_log)

theorem no_file_no_vendor_call_witness:
  "req_file (example_request\<lparr>req_file := None\<rparr>) = None
   \<and> upload_handler example_engine answers_label (example_request\<lparr>req_file := None\<rparr>)
       = (plainReply 400 (js ''Please select an image file to upload.''), [])
   \<and> req_file example_request = Some example_file
   \<and> Post 1 \<in> set (snd (upload_handler example_engine answers_label example_request))"
  using no_file_no_vendor_call [of "example_request\<lparr>req_file := None\<rparr>" example_engine
          answers_label None example_file]
        no_file_no_vendor_call [of example_request example_engine answers_label None
          example_file]
  by (simp add: example_request_def upload_handler_def)

section \<open>Label verifier\<close>

text \<open>
  Claim C5. For every text and every submitted fields, no field name is both found and
  missing and none is listed twice; a field is listed (in one of the two) exactly when it
  was submitted, so an absent field (unset or empty) is in neither.
\<close>

theorem verifyLabels_partition:
  "set (found (verifyLabels E parsedText fs)) \<inter> set (missing (verifyLabels E parsedText fs)) = {}
   \<and> distinct (found (verifyLabels E parsedText fs) @ missing (verifyLabels E parsedText fs))
   \<and> (absent (brandName fs) \<longleftrightarrow>
        ''brandName'' \<notin> set (found (verifyLabels E parsedText fs))
                          \<union> set (missing (verifyLabels E parsedText fs)))
   \<and> (absent (productClass fs) \<longleftrightarrow>
        ''productClass'' \<notin> set (found (verifyLabels E parsedText fs))
                          \<union> set (missing (verifyLabels E parsedText fs)))
   \<and> (absent (alcoholContent fs) \<longleftrightarrow>
        ''alcoholContent'' \<notin> set (found (verifyLabels E parsedText fs))
                          \<union> set (missing (verifyLabels E parsedText fs)))"
  by (auto simp: verifyLabels_def absent_def Let_def split: option.splits)

theorem verifyLabels_partition_witness:
  "absent (productClass (extractRequestData example_request))
   \<and> \<not> absent (brandName (extractRequestData example_request))
   \<and> ''productClass'' \<notin> set (found (verifyLabels example_engine example_text
                                        (extractRequestData example_request)))
                          \<union> set (missing (verifyLabels example_engine example_text
                                        (extractRequestData example_request)))
   \<and> ''brandName'' \<in> set (found (verifyLabels example_engine example_text
                                        (extractRequestData example_request)))
                          \<union> set (missing (verifyLabels example_engine example_text
                                        (extractRequestData example_request)))"
  using verifyLabels_partition [of example_engine example_text
          "extractRequestData example_request"]
  by (simp add: absent_def extractRequestData_def example_request_def js_def)

text \<open>
  Claim C6. \<open>isVerificationComplete\<close> is true exactly when \<open>missing\<close> is empty and
  \<open>found\<close> is not; with no field submitted both are empty, so the request is not complete.
\<close>

theorem isVerificationComplete_iff:
  "(isVerificationComplete c \<longleftrightarrow> missing c = [] \<and> found c \<noteq> [])
   \<and> (absent (brandName fs) \<and> absent (productClass fs) \<and> absent (alcoholContent fs)
        \<longrightarrow> found (verifyLabels E parsedText fs) = []
            \<and> missing (verifyLabels E parsedText fs) = []
            \<and> \<not> isVerificationComplete (verifyLabels E parsedText fs))"
  by (auto simp: isVerificationComplete_def verifyLabels_def absent_def)

theorem isVerificationComplete_iff_witness:
  "absent None \<and> absent (Some [])
   \<and> \<not> isVerificationComplete
         (verifyLabels example_engine example_text
            \<lparr>brandName = None, productClass = Some [], alcoholContent = None\<rparr>)"
  using isVerificationComplete_iff
    [where fs = "\<lparr>brandName = None, productClass = Some [], alcoholContent = None\<rparr>"
       and E = example_engine and parsedText = example_text]
  by (simp add: absent_def)

text \<open>
  Claim C10. A \<open>brandName\<close> or \<open>productClass\<close> that is a non-empty string but normalizes
  to the empty string (a single space, for one) is put into \<open>missing\<close>, whatever the
  text: it is neither skipped nor found.
\<close>

theorem blank_field_missing:
  "(brandName fs = Some v \<and> v \<noteq> [] \<and> normalize_str E v = [] \<longrightarrow>
      ''brandName'' \<in> set (missing (verifyLabels E parsedText fs))
      \<and> ''brandName'' \<notin> set (found (verifyLabels E parsedText fs)))
   \<and> (productClass fs = Some v \<and> v \<noteq> [] \<and> normalize_str E v = [] \<longrightarrow>
      ''productClass'' \<in> set (missing (verifyLabels E parsedText fs))
      \<and> ''productClass'' \<notin> set (found (verifyLabels E parsedText fs)))"
  by (auto simp: verifyLabels_def Let_def split: option.splits)

theorem blank_field_missing_witness:
  "js '' '' \<noteq> [] \<and> normalize_str example_engine (js '' '') = []
   \<and> ''brandName'' \<in> set (missing (verifyLabels example_engine example_text
         \<lparr>brandName = Some (js '' ''), productClass = Some (js '' ''), alcoholContent = None\<rparr>))
   \<and> ''productClass'' \<in> set (missing (verifyLabels example_engine example_text
         \<lparr>brandName = Some (js '' ''), productClass = Some (js '' ''), alcoholContent = None\<rparr>))"
proof -
  have ne: "js '' '' \<noteq> []" by (simp add: js_def)
  show ?thesis
    using ne normalize_blank
      blank_field_missing [where E = example_engine and v = "js '' ''"
        and parsedText = example_text
        and fs = "\<lparr>brandName = Some (js '' ''), productClass = Some (js '' ''),
                    alcoholContent = None\<rparr>"]
    by simp
qed

section \<open>Response text extractor\<close>














section \<open>Alcohol content matcher\<close>



















end
